theory Spec2Isabelle
  imports Main "HOL-Library.Sublist" "HOL-Library.AList"
begin

section \<open>Python values and exceptions\<close>

text \<open>
  The values that travel through \<^verbatim>\<open>main.py\<close> are JSON-shaped Python objects. A
  \<^verbatim>\<open>dict\<close> is an association list in insertion order (its keys are distinct in
  Python; every definition below reads it through \<open>map_of\<close> and writes it through
  \<open>AList.update\<close>, which replaces a binding in place and appends a new key at the end,
  as assignment \<^verbatim>\<open>d[k] = v\<close> does). A float is carried opaquely as a mantissa and a
  binary exponent: the program never computes with one.
\<close>

datatype pyfloat = PyFloat int int

datatype pyval =
    PNone
  | PBool bool
  | PInt int
  | PFloat pyfloat
  | PStr string
  | PList "pyval list"
  | PDict "(string \<times> pyval) list"

text \<open>An exception is its class name and its message \<^verbatim>\<open>str(e)\<close>.\<close>

datatype py_exn = PyExn (exn_class: string) (exn_str: string)

type_synonym 'a py = "py_exn + 'a"

definition py_bind :: "'a py \<Rightarrow> ('a \<Rightarrow> 'b py) \<Rightarrow> 'b py" where
  "py_bind m f = (case m of Inl e \<Rightarrow> Inl e | Inr x \<Rightarrow> f x)"

text \<open>\<^verbatim>\<open>try: body  except Exception as e: handler\<close>\<close>

definition except_Exception :: "'a py \<Rightarrow> (py_exn \<Rightarrow> 'a py) \<Rightarrow> 'a py" where
  "except_Exception body handler = (case body of Inl e \<Rightarrow> handler e | Inr x \<Rightarrow> Inr x)"

definition quoted :: "string \<Rightarrow> string" where
  "quoted s = CHR 0x27 # s @ [CHR 0x27]"

fun type_name :: "pyval \<Rightarrow> string" where
  "type_name PNone = ''NoneType''"
| "type_name (PBool b) = ''bool''"
| "type_name (PInt i) = ''int''"
| "type_name (PFloat x) = ''float''"
| "type_name (PStr s) = ''str''"
| "type_name (PList xs) = ''list''"
| "type_name (PDict d) = ''dict''"

text \<open>
  The interpreter's own operations, with the exceptions they raise. The message texts
  are CPython's; no statement below depends on their wording.
\<close>

text \<open>\<^verbatim>\<open>for x in v\<close>: a list yields its elements, a string its characters, a dict its keys.\<close>

fun py_iter :: "pyval \<Rightarrow> pyval list py" where
  "py_iter (PList xs) = Inr xs"
| "py_iter (PStr s) = Inr (map (\<lambda>c. PStr [c]) s)"
| "py_iter (PDict d) = Inr (map (\<lambda>kv. PStr (fst kv)) d)"
| "py_iter v = Inl (PyExn ''TypeError'' (quoted (type_name v) @ '' object is not iterable''))"

text \<open>
  \<^verbatim>\<open>k in v\<close> for a string \<open>k\<close>: key membership in a dict, element membership in a list,
  substring test in a string.
\<close>

fun py_contains :: "string \<Rightarrow> pyval \<Rightarrow> bool py" where
  "py_contains k (PDict d) = Inr (map_of d k \<noteq> None)"
| "py_contains k (PList xs) = Inr (PStr k \<in> set xs)"
| "py_contains k (PStr s) = Inr (sublist k s)"
| "py_contains k v =
     Inl (PyExn ''TypeError'' (''argument of type '' @ quoted (type_name v) @ '' is not iterable''))"

text \<open>\<^verbatim>\<open>v[k]\<close> for a string \<open>k\<close>.\<close>

fun py_getitem :: "pyval \<Rightarrow> string \<Rightarrow> pyval py" where
  "py_getitem (PDict d) k =
     (case map_of d k of Some x \<Rightarrow> Inr x | None \<Rightarrow> Inl (PyExn ''KeyError'' (quoted k)))"
| "py_getitem (PList xs) k =
     Inl (PyExn ''TypeError'' ''list indices must be integers or slices, not str'')"
| "py_getitem (PStr s) k =
     Inl (PyExn ''TypeError'' (''string indices must be integers, not '' @ quoted ''str''))"
| "py_getitem v k =
     Inl (PyExn ''TypeError'' (quoted (type_name v) @ '' object is not subscriptable''))"

text \<open>\<^verbatim>\<open>v.get(k, default)\<close>: only a dict has the method.\<close>

fun py_get :: "pyval \<Rightarrow> string \<Rightarrow> pyval \<Rightarrow> pyval py" where
  "py_get (PDict d) k dflt = Inr (case map_of d k of Some x \<Rightarrow> x | None \<Rightarrow> dflt)"
| "py_get v k dflt =
     Inl (PyExn ''AttributeError''
       (quoted (type_name v) @ '' object has no attribute '' @ quoted ''get''))"

text \<open>\<^verbatim>\<open>sep.join(xs)\<close>\<close>

fun join :: "string \<Rightarrow> string list \<Rightarrow> string" where
  "join sep [] = []"
| "join sep [x] = x"
| "join sep (x # y # ys) = x @ sep @ join sep (y # ys)"


section \<open>The backend's typed objects\<close>

text \<open>
  The objects returned by the Dialogflow CX client library are modelled by what
  \<^verbatim>\<open>main.py\<close> observes of them. An attribute probed with \<^verbatim>\<open>hasattr\<close> is an option:
  \<open>None\<close> when the object does not have it. A sub-message tested with \<^verbatim>\<open>if x:\<close> is an
  option: \<open>None\<close> when the truth test fails. A mapping tested for truth is an optional
  association list, false when absent or empty. \<^verbatim>\<open>str(x)\<close> is a field of its own.
\<close>

record TypedValue =
  string_value :: "string option"
  number_value :: "pyfloat option"
  bool_value :: "bool option"
  struct_value :: "(string \<times> pyval) list option"
  value_str :: string

type_synonym parameters = "(string \<times> TypedValue) list option"

record Intent =
  intent_display_name :: string

record Page =
  page_display_name :: string

record Match =
  match_intent_of :: "Intent option"
  match_confidence :: pyfloat
  match_parameters :: parameters

record Text =
  text_lines :: "string list"

record ResponseMessage =
  msg_text :: "Text option"
  msg_payload :: "(string \<times> pyval) list option"
  msg_str :: string

record QueryResult =
  response_messages :: "ResponseMessage list"
  qr_match :: Match
  qr_parameters :: parameters
  qr_current_page :: Page
  qr_transcript :: string

record DetectIntentResponse =
  query_result :: QueryResult

record MatchIntentResponse =
  matches :: "Match list"
  mr_current_page :: Page

text \<open>The requests built for the remote calls.\<close>

record TextInput =
  ti_text :: string

record InputAudioConfig =
  cfg_audio_encoding :: int
  cfg_sample_rate_hertz :: int
  cfg_single_utterance :: bool

record AudioInput =
  ai_config :: InputAudioConfig
  ai_audio :: string

record QueryInput =
  qi_text :: "TextInput option"
  qi_audio :: "AudioInput option"
  qi_language_code :: string

record DetectIntentRequest =
  dreq_session :: string
  dreq_query_input :: QueryInput

record MatchIntentRequest =
  mreq_session :: string
  mreq_query_input :: QueryInput

text \<open>
  The sessions client is the handle to the remote service: its two calls either return
  a response or raise.
\<close>

record SessionsClient =
  sc_detect_intent :: "DetectIntentRequest \<Rightarrow> DetectIntentResponse py"
  sc_match_intent :: "MatchIntentRequest \<Rightarrow> MatchIntentResponse py"

record DialogflowCXClient =
  project_id :: string
  location :: string
  agent_id :: string
  sessions_client :: SessionsClient
  agent_path :: string

text \<open>
  What one tool invocation reads from outside \<^verbatim>\<open>main.py\<close>: the values
  \<^verbatim>\<open>str(uuid.uuid4())\<close> returns at its first, second, ... call, the file system, the
  credential loader, the client constructor, the audio-encoding enumeration, the base64
  decoder and the JSON decoder.
\<close>

typedecl Credentials

record Env =
  uuid4 :: "nat \<Rightarrow> string"
  path_exists :: "string \<Rightarrow> bool"
  from_service_account_file :: "string \<Rightarrow> Credentials py"
  new_SessionsClient :: "Credentials option \<Rightarrow> SessionsClient py"
  getattr_AudioEncoding :: "string \<Rightarrow> int py"
  open_rb_read :: "string \<Rightarrow> string py"
  b64decode :: "string \<Rightarrow> string py"
  json_loads :: "string \<Rightarrow> pyval py"

text \<open>The module's global variable.\<close>

record Globals =
  DIALOGFLOW_CLIENT :: "DialogflowCXClient option"

definition initial_globals :: Globals where
  "initial_globals = \<lparr>DIALOGFLOW_CLIENT = None\<rparr>"


section \<open>The class \<^verbatim>\<open>DialogflowCXClient\<close>\<close>

text \<open>\<^verbatim>\<open>__init__\<close>: builds the sessions client and the agent path.\<close>

definition DialogflowCXClient_init ::
  "Env \<Rightarrow> string \<Rightarrow> string \<Rightarrow> string \<Rightarrow> string option \<Rightarrow> DialogflowCXClient py" where
  "DialogflowCXClient_init env pid loc aid credentials_path =
     py_bind
       (case credentials_path of
          None \<Rightarrow> new_SessionsClient env None
        | Some path \<Rightarrow>
            if path \<noteq> [] \<and> path_exists env path
            then py_bind (from_service_account_file env path)
                   (\<lambda>credentials. new_SessionsClient env (Some credentials))
            else new_SessionsClient env None)
       (\<lambda>client. Inr \<lparr>project_id = pid, location = loc, agent_id = aid,
          sessions_client = client,
          agent_path = ''projects/'' @ pid @ ''/locations/'' @ loc @ ''/agents/'' @ aid\<rparr>)"

text \<open>
  \<^verbatim>\<open>create_session_path\<close>; \<open>n\<close> counts the identifiers already drawn from
  \<^verbatim>\<open>uuid.uuid4\<close> in this invocation.
\<close>

definition create_session_path ::
  "Env \<Rightarrow> nat \<Rightarrow> DialogflowCXClient \<Rightarrow> string option \<Rightarrow> string" where
  "create_session_path env n self session_id =
     (let session_id' =
        (case session_id of
           None \<Rightarrow> uuid4 env n
         | Some s \<Rightarrow> if s = [] then uuid4 env n else s)
      in agent_path self @ ''/sessions/'' @ session_id')"

text \<open>
  \<^verbatim>\<open>_extract_parameters\<close>. First the \<^verbatim>\<open>if hasattr ... elif hasattr ... else\<close> chain of
  the loop body, which picks the value stored under the key; then the loop over
  \<^verbatim>\<open>parameters.items()\<close>, with the dictionary under construction as accumulator.
\<close>

definition extract_value :: "TypedValue \<Rightarrow> pyval" where
  "extract_value v =
     (case string_value v of
        Some s \<Rightarrow> PStr s
      | None \<Rightarrow>
         (case number_value v of
            Some x \<Rightarrow> PFloat x
          | None \<Rightarrow>
             (case bool_value v of
                Some b \<Rightarrow> PBool b
              | None \<Rightarrow>
                 (case struct_value v of
                    Some d \<Rightarrow> PDict d
                  | None \<Rightarrow> PStr (value_str v)))))"

fun extract_items :: "(string \<times> pyval) list \<Rightarrow> (string \<times> TypedValue) list \<Rightarrow> (string \<times> pyval) list" where
  "extract_items param_dict [] = param_dict"
| "extract_items param_dict ((key, v) # rest) =
     extract_items (AList.update key (extract_value v) param_dict) rest"

definition extract_parameters :: "parameters \<Rightarrow> (string \<times> pyval) list" where
  "extract_parameters ps =
     (case ps of
        None \<Rightarrow> []
      | Some items \<Rightarrow> if items = [] then [] else extract_items [] items)"

text \<open>
  \<^verbatim>\<open>_process_response\<close>: the loop over the response messages, with the list
  \<^verbatim>\<open>messages\<close> as accumulator.
\<close>

fun process_messages :: "pyval list \<Rightarrow> ResponseMessage list \<Rightarrow> pyval list" where
  "process_messages messages [] = messages"
| "process_messages messages (msg # rest) =
     (case msg_text msg of
        Some t \<Rightarrow>
          process_messages
            (messages @ [PDict [(''type'', PStr ''text''),
                                (''content'', PStr (join [CHR 0x0A] (text_lines t)))]])
            rest
      | None \<Rightarrow>
          (case msg_payload msg of
             None \<Rightarrow> process_messages messages rest
           | Some payload \<Rightarrow>
               if payload = [] then process_messages messages rest
               else process_messages
                      (messages @ [PDict [(''type'', PStr ''payload''),
                                          (''content'', PDict payload)]])
                      rest))"

definition process_response :: "DetectIntentResponse \<Rightarrow> (string \<times> pyval) list" where
  "process_response response =
     (let qr = query_result response;
          messages = process_messages [] (response_messages qr);
          has_end_interaction =
            list_ex (\<lambda>msg. sublist ''end_interaction'' (msg_str msg)) (response_messages qr);
          intent_info =
            (case match_intent_of (qr_match qr) of
               None \<Rightarrow> PNone
             | Some i \<Rightarrow> PDict [(''name'', PStr (intent_display_name i)),
                               (''confidence'', PFloat (match_confidence (qr_match qr)))]);
          params = extract_parameters (qr_parameters qr)
      in [(''messages'', PList messages),
          (''intent'', intent_info),
          (''parameters'', PDict params),
          (''current_page'', PStr (page_display_name (qr_current_page qr))),
          (''transcript'', PStr (qr_transcript qr)),
          (''end_interaction'', PBool has_end_interaction)])"

definition DialogflowCXClient_detect_intent ::
  "Env \<Rightarrow> nat \<Rightarrow> DialogflowCXClient \<Rightarrow> string \<Rightarrow> string \<Rightarrow> string \<Rightarrow> (string \<times> pyval) list py" where
  "DialogflowCXClient_detect_intent env n self session_id txt language_code =
     (let session_path = create_session_path env n self (Some session_id);
          text_input = \<lparr>ti_text = txt\<rparr>;
          query_input = \<lparr>qi_text = Some text_input, qi_audio = None,
                         qi_language_code = language_code\<rparr>;
          request = \<lparr>dreq_session = session_path, dreq_query_input = query_input\<rparr>
      in py_bind (sc_detect_intent (sessions_client self) request)
           (\<lambda>response. Inr (process_response response)))"

definition DialogflowCXClient_detect_intent_audio ::
  "Env \<Rightarrow> nat \<Rightarrow> DialogflowCXClient \<Rightarrow> string \<Rightarrow> string \<Rightarrow> int \<Rightarrow> string \<Rightarrow> string \<Rightarrow>
     (string \<times> pyval) list py" where
  "DialogflowCXClient_detect_intent_audio env n self session_id audio_content
       sample_rate_hertz audio_encoding language_code =
     (let session_path = create_session_path env n self (Some session_id)
      in py_bind (getattr_AudioEncoding env audio_encoding) (\<lambda>encoding_enum.
           let audio_input =
                 \<lparr>ai_config = \<lparr>cfg_audio_encoding = encoding_enum,
                                cfg_sample_rate_hertz = sample_rate_hertz,
                                cfg_single_utterance = True\<rparr>,
                  ai_audio = audio_content\<rparr>;
               query_input = \<lparr>qi_text = None, qi_audio = Some audio_input,
                              qi_language_code = language_code\<rparr>;
               request = \<lparr>dreq_session = session_path, dreq_query_input = query_input\<rparr>
           in py_bind (sc_detect_intent (sessions_client self) request)
                (\<lambda>response. Inr (process_response response))))"

definition DialogflowCXClient_match_intent ::
  "Env \<Rightarrow> nat \<Rightarrow> DialogflowCXClient \<Rightarrow> string \<Rightarrow> string \<Rightarrow> string \<Rightarrow> (string \<times> pyval) list py" where
  "DialogflowCXClient_match_intent env n self session_id txt language_code =
     (let session_path = create_session_path env n self (Some session_id);
          text_input = \<lparr>ti_text = txt\<rparr>;
          query_input = \<lparr>qi_text = Some text_input, qi_audio = None,
                         qi_language_code = language_code\<rparr>;
          request = \<lparr>mreq_session = session_path, mreq_query_input = query_input\<rparr>
      in py_bind (sc_match_intent (sessions_client self) request)
           (\<lambda>response.
              Inr [(''matches'',
                    PList (map (\<lambda>m.
                      PDict [(''intent'',
                              PStr (case match_intent_of m of
                                      Some i \<Rightarrow> intent_display_name i
                                    | None \<Rightarrow> ''No intent'')),
                             (''confidence'', PFloat (match_confidence m)),
                             (''parameters'', PDict (extract_parameters (match_parameters m)))])
                      (matches response))),
                   (''current_page'', PStr (page_display_name (mr_current_page response)))]))"


section \<open>The tools\<close>

definition initialize_dialogflow ::
  "Env \<Rightarrow> Globals \<Rightarrow> string \<Rightarrow> string \<Rightarrow> string \<Rightarrow> string option \<Rightarrow> string py \<times> Globals" where
  "initialize_dialogflow env g pid loc aid credentials_path =
     (case DialogflowCXClient_init env pid loc aid credentials_path of
        Inr client \<Rightarrow>
          (Inr (''Dialogflow CX client initialized for agent: '' @ aid),
           g\<lparr>DIALOGFLOW_CLIENT := Some client\<rparr>)
      | Inl e \<Rightarrow>
          (Inr (''Error initializing Dialogflow CX client: '' @ exn_str e), g))"

definition not_initialized :: pyval where
  "not_initialized =
     PDict [(''error'',
             PStr ''Dialogflow CX client not initialized. Call initialize_dialogflow first.'')]"

text \<open>\<^verbatim>\<open>if not session_id: session_id = str(uuid.uuid4())\<close>\<close>

definition session_id_or_uuid :: "Env \<Rightarrow> string option \<Rightarrow> string \<times> nat" where
  "session_id_or_uuid env session_id =
     (case session_id of
        None \<Rightarrow> (uuid4 env 0, 1)
      | Some s \<Rightarrow> if s = [] then (uuid4 env 0, 1) else (s, 0))"

definition detect_intent ::
  "Env \<Rightarrow> Globals \<Rightarrow> string \<Rightarrow> string option \<Rightarrow> string \<Rightarrow> pyval py" where
  "detect_intent env g txt session_id language_code =
     (case DIALOGFLOW_CLIENT g of
        None \<Rightarrow> Inr not_initialized
      | Some client \<Rightarrow>
          (case session_id_or_uuid env session_id of (session_id', n) \<Rightarrow>
             except_Exception
               (py_bind
                  (DialogflowCXClient_detect_intent env n client session_id' txt language_code)
                  (\<lambda>response.
                     Inr (PDict (AList.update ''session_id'' (PStr session_id') response))))
               (\<lambda>e. Inr (PDict [(''error'', PStr (''Error detecting intent: '' @ exn_str e))]))))"

definition detect_intent_from_audio ::
  "Env \<Rightarrow> Globals \<Rightarrow> string \<Rightarrow> string option \<Rightarrow> int \<Rightarrow> string \<Rightarrow> string \<Rightarrow> pyval py" where
  "detect_intent_from_audio env g audio_file_path session_id sample_rate_hertz
       audio_encoding language_code =
     (case DIALOGFLOW_CLIENT g of
        None \<Rightarrow> Inr not_initialized
      | Some client \<Rightarrow>
          (case session_id_or_uuid env session_id of (session_id', n) \<Rightarrow>
             except_Exception
               (py_bind (open_rb_read env audio_file_path) (\<lambda>audio_content.
                py_bind
                  (DialogflowCXClient_detect_intent_audio env n client session_id'
                     audio_content sample_rate_hertz audio_encoding language_code)
                  (\<lambda>response.
                     Inr (PDict (AList.update ''session_id'' (PStr session_id') response)))))
               (\<lambda>e. Inr (PDict [(''error'',
                       PStr (''Error detecting intent from audio: '' @ exn_str e))]))))"

definition detect_intent_from_base64 ::
  "Env \<Rightarrow> Globals \<Rightarrow> string \<Rightarrow> string option \<Rightarrow> int \<Rightarrow> string \<Rightarrow> string \<Rightarrow> pyval py" where
  "detect_intent_from_base64 env g audio_base64 session_id sample_rate_hertz
       audio_encoding language_code =
     (case DIALOGFLOW_CLIENT g of
        None \<Rightarrow> Inr not_initialized
      | Some client \<Rightarrow>
          (case session_id_or_uuid env session_id of (session_id', n) \<Rightarrow>
             except_Exception
               (py_bind (b64decode env audio_base64) (\<lambda>audio_content.
                py_bind
                  (DialogflowCXClient_detect_intent_audio env n client session_id'
                     audio_content sample_rate_hertz audio_encoding language_code)
                  (\<lambda>response.
                     Inr (PDict (AList.update ''session_id'' (PStr session_id') response)))))
               (\<lambda>e. Inr (PDict [(''error'',
                       PStr (''Error detecting intent from base64 audio: '' @ exn_str e))]))))"

definition match_intent ::
  "Env \<Rightarrow> Globals \<Rightarrow> string \<Rightarrow> string option \<Rightarrow> string \<Rightarrow> pyval py" where
  "match_intent env g txt session_id language_code =
     (case DIALOGFLOW_CLIENT g of
        None \<Rightarrow> Inr not_initialized
      | Some client \<Rightarrow>
          (case session_id_or_uuid env session_id of (session_id', n) \<Rightarrow>
             except_Exception
               (py_bind
                  (DialogflowCXClient_match_intent env n client session_id' txt language_code)
                  (\<lambda>response.
                     Inr (PDict (AList.update ''session_id'' (PStr session_id') response))))
               (\<lambda>e. Inr (PDict [(''error'', PStr (''Error matching intent: '' @ exn_str e))]))))"

text \<open>
  \<^verbatim>\<open>create_webhook_response\<close>: the loop over the message descriptors, with the list
  \<^verbatim>\<open>response["fulfillmentResponse"]["messages"]\<close> as accumulator.
\<close>

fun append_messages :: "pyval list \<Rightarrow> pyval list \<Rightarrow> pyval list" where
  "append_messages out [] = out"
| "append_messages out (msg # rest) =
     (case msg of
        PStr s \<Rightarrow>
          append_messages (out @ [PDict [(''text'', PDict [(''text'', PList [msg])])]]) rest
      | PDict m \<Rightarrow>
          (case map_of m ''text'' of
             Some v \<Rightarrow>
               append_messages (out @ [PDict [(''text'', PDict [(''text'', PList [v])])]]) rest
           | None \<Rightarrow>
              (case map_of m ''payload'' of
                 Some p \<Rightarrow> append_messages (out @ [PDict [(''payload'', p)]]) rest
               | None \<Rightarrow> append_messages out rest))
      | _ \<Rightarrow> append_messages out rest)"

definition create_webhook_response :: "(string \<times> pyval) list \<Rightarrow> pyval py" where
  "create_webhook_response fulfillment_response =
     except_Exception
       (py_bind
          (case map_of fulfillment_response ''messages'' of
             None \<Rightarrow> Inr []
           | Some ms \<Rightarrow>
               py_bind (py_iter ms)
                 (\<lambda>msgs. Inr (AList.update ''messages'' (PList (append_messages [] msgs)) [])))
          (\<lambda>fulfillmentResponse.
             let response0 = [(''fulfillmentResponse'', PDict fulfillmentResponse)];
                 response1 =
                   (case map_of fulfillment_response ''parameter_updates'' of
                      None \<Rightarrow> response0
                    | Some v \<Rightarrow>
                        AList.update ''sessionInfo'' (PDict [(''parameters'', v)]) response0);
                 response2 =
                   (case map_of fulfillment_response ''target_page'' of
                      None \<Rightarrow> response1
                    | Some v \<Rightarrow> AList.update ''targetPage'' v response1);
                 response3 =
                   (case map_of fulfillment_response ''target_flow'' of
                      None \<Rightarrow> response2
                    | Some v \<Rightarrow> AList.update ''targetFlow'' v response2)
             in Inr (PDict response3)))
       (\<lambda>e. Inr (PDict [(''error'',
               PStr (''Error creating webhook response: '' @ exn_str e))]))"

text \<open>
  \<^verbatim>\<open>parse_webhook_request\<close>: the loop over the prior-turn messages, then the body of
  the \<^verbatim>\<open>try\<close> block after \<^verbatim>\<open>json.loads\<close>, then the tool.
\<close>

lemma py_bind_cong [fundef_cong]:
  "m = m' \<Longrightarrow> (\<And>x. m' = Inr x \<Longrightarrow> f x = f' x) \<Longrightarrow> py_bind m f = py_bind m' f'"
  by (cases m') (simp_all add: py_bind_def)

fun parse_messages :: "pyval list \<Rightarrow> pyval list \<Rightarrow> pyval list py" where
  "parse_messages messages [] = Inr messages"
| "parse_messages messages (msg # rest) =
     py_bind (py_contains ''text'' msg) (\<lambda>has_text.
       if has_text then
         py_bind (py_getitem msg ''text'') (\<lambda>t.
         py_bind (py_getitem t ''text'') (\<lambda>content.
           parse_messages
             (messages @ [PDict [(''type'', PStr ''text''), (''content'', content)]]) rest))
       else
         py_bind (py_contains ''payload'' msg) (\<lambda>has_payload.
           if has_payload then
             py_bind (py_getitem msg ''payload'') (\<lambda>content.
               parse_messages
                 (messages @ [PDict [(''type'', PStr ''payload''), (''content'', content)]]) rest)
           else parse_messages messages rest))"

definition parse_request_data :: "pyval \<Rightarrow> pyval py" where
  "parse_request_data request_data =
     py_bind (py_get request_data ''sessionInfo'' (PDict [])) (\<lambda>session.
     py_bind (py_get request_data ''intentInfo'' (PDict [])) (\<lambda>intent.
     py_bind (py_get session ''parameters'' (PDict [])) (\<lambda>params.
     py_bind (py_get request_data ''pageInfo'' (PDict [])) (\<lambda>page_info.
     py_bind (py_get page_info ''displayName'' (PStr [])) (\<lambda>current_page.
     py_bind (py_get request_data ''messages'' (PList [])) (\<lambda>prior.
     py_bind (py_iter prior) (\<lambda>msgs.
     py_bind (parse_messages [] msgs) (\<lambda>messages.
     py_bind (py_get session ''session'' (PStr [])) (\<lambda>session_id.
     py_bind (py_get intent ''displayName'' (PStr [])) (\<lambda>intent_name.
       Inr (PDict [(''session_id'', session_id),
                   (''intent_name'', intent_name),
                   (''parameters'', params),
                   (''current_page'', current_page),
                   (''messages'', PList messages),
                   (''raw_request'', request_data)])))))))))))"

definition parse_webhook_request :: "Env \<Rightarrow> string \<Rightarrow> pyval py" where
  "parse_webhook_request env request_json =
     except_Exception
       (py_bind (json_loads env request_json) parse_request_data)
       (\<lambda>e. Inr (PDict [(''error'',
               PStr (''Error parsing webhook request: '' @ exn_str e))]))"


section \<open>Reading a result object\<close>

text \<open>The value under a key of a result object, when the object is a dict that has it.\<close>

fun field :: "pyval \<Rightarrow> string \<Rightarrow> pyval option" where
  "field (PDict d) k = map_of d k"
| "field v k = None"

definition has_field :: "pyval \<Rightarrow> string \<Rightarrow> bool" where
  "has_field v k = (field v k \<noteq> None)"

text \<open>The value two keys deep.\<close>

definition field2 :: "pyval \<Rightarrow> string \<Rightarrow> string \<Rightarrow> pyval option" where
  "field2 v k1 k2 = (case field v k1 of None \<Rightarrow> None | Some w \<Rightarrow> field w k2)"

text \<open>The value under a key of a tool's result; \<open>None\<close> when the tool raised.\<close>

definition result_field :: "pyval py \<Rightarrow> string \<Rightarrow> pyval option" where
  "result_field res k = (case res of Inl e \<Rightarrow> None | Inr r \<Rightarrow> field r k)"

text \<open>
  The webhook response builder as the specification words it: a raw string becomes
  \<^verbatim>\<open>{text: {text: [string]}}\<close>, a descriptor with a \<^verbatim>\<open>text\<close> field becomes
  \<^verbatim>\<open>{text: {text: [value]}}\<close>, a descriptor with a \<^verbatim>\<open>payload\<close> field passes the payload
  through, and any other descriptor is dropped. \<open>recognized\<close> holds of the descriptors of
  the first three shapes.
\<close>

fun recognized :: "pyval \<Rightarrow> bool" where
  "recognized (PStr s) = True"
| "recognized (PDict m) =
     (case map_of m ''text'' of
        Some v \<Rightarrow> True
      | None \<Rightarrow> (case map_of m ''payload'' of Some p \<Rightarrow> True | None \<Rightarrow> False))"
| "recognized v = False"

fun descriptor_message :: "pyval \<Rightarrow> pyval list" where
  "descriptor_message (PStr s) = [PDict [(''text'', PDict [(''text'', PList [PStr s])])]]"
| "descriptor_message (PDict m) =
     (case map_of m ''text'' of
        Some v \<Rightarrow> [PDict [(''text'', PDict [(''text'', PList [v])])]]
      | None \<Rightarrow>
         (case map_of m ''payload'' of
            Some p \<Rightarrow> [PDict [(''payload'', p)]]
          | None \<Rightarrow> []))"
| "descriptor_message v = []"


text \<open>\<^verbatim>\<open>d.get(k, dflt)\<close> on a dict, as a plain function.\<close>

definition get_or :: "(string \<times> pyval) list \<Rightarrow> string \<Rightarrow> pyval \<Rightarrow> pyval" where
  "get_or d k dflt = (case map_of d k of Some v \<Rightarrow> v | None \<Rightarrow> dflt)"

text \<open>
  The webhook request parser as the specification words it: a prior-turn message is an
  object; one with a \<^verbatim>\<open>text\<close> field holding an object with a \<^verbatim>\<open>text\<close> field is tagged
  \<^verbatim>\<open>text\<close>, otherwise one with a \<^verbatim>\<open>payload\<close> field is tagged \<^verbatim>\<open>payload\<close>, and any other
  is skipped. \<open>well_shaped_message\<close> holds of the objects whose \<^verbatim>\<open>text\<close> field, when
  present, has that form.
\<close>

fun well_shaped_message :: "pyval \<Rightarrow> bool" where
  "well_shaped_message (PDict md) =
     (case map_of md ''text'' of
        None \<Rightarrow> True
      | Some (PDict td) \<Rightarrow> map_of td ''text'' \<noteq> None
      | Some _ \<Rightarrow> False)"
| "well_shaped_message v = False"

definition prior_message :: "pyval \<Rightarrow> pyval list" where
  "prior_message m =
     (case field2 m ''text'' ''text'' of
        Some c \<Rightarrow> [PDict [(''type'', PStr ''text''), (''content'', c)]]
      | None \<Rightarrow>
         (case field m ''payload'' of
            Some p \<Rightarrow> [PDict [(''type'', PStr ''payload''), (''content'', p)]]
          | None \<Rightarrow> []))"


section \<open>Example inputs\<close>

text \<open>
  A JSON decoder tabulated on the four texts the examples below decode:
  \<^verbatim>\<open>[]\<close>, the request \<^verbatim>\<open>{"sessionInfo":{"session":"s1","parameters":{"a":1}}}\<close>,
  the request \<^verbatim>\<open>{"messages":[{"text":"hi","payload":1}]}\<close> and \<^verbatim>\<open>not json\<close>, which
  \<^verbatim>\<open>json.loads\<close> rejects. It is applied to no other text.
\<close>

definition example_json_loads :: "string \<Rightarrow> pyval py" where
  "example_json_loads s =
     (if s = ''[]'' then Inr (PList [])
      else if s = ''{\"sessionInfo\":{\"session\":\"s1\",\"parameters\":{\"a\":1}}}''
        then Inr (PDict [(''sessionInfo'',
               PDict [(''session'', PStr ''s1''), (''parameters'', PDict [(''a'', PInt 1)])])])
      else if s = ''{\"messages\":[{\"text\":\"hi\",\"payload\":1}]}''
        then Inr (PDict [(''messages'',
               PList [PDict [(''text'', PStr ''hi''), (''payload'', PInt 1)]])])
      else Inl (PyExn ''JSONDecodeError'' ''Expecting value: line 1 column 1 (char 0)''))"

text \<open>An environment with no credentials, no files and no known audio encoding.\<close>

definition example_env :: Env where
  "example_env =
     \<lparr>uuid4 = (\<lambda>n. ''00000000-0000-4000-8000-000000000000''),
      path_exists = (\<lambda>p. False),
      from_service_account_file = (\<lambda>p. Inl (PyExn ''FileNotFoundError'' p)),
      new_SessionsClient = (\<lambda>c. Inl (PyExn ''DefaultCredentialsError'' ''no credentials'')),
      getattr_AudioEncoding = (\<lambda>n. Inl (PyExn ''AttributeError'' n)),
      open_rb_read = (\<lambda>p. Inl (PyExn ''FileNotFoundError'' p)),
      b64decode = (\<lambda>s. Inr s),
      json_loads = example_json_loads\<rparr>"

definition no_intent_match :: Match where
  "no_intent_match =
     \<lparr>match_intent_of = None, match_confidence = PyFloat 0 0, match_parameters = None\<rparr>"

text \<open>A matching response with two candidates, the second without an intent.\<close>

definition example_matches :: MatchIntentResponse where
  "example_matches =
     \<lparr>matches =
        [\<lparr>match_intent_of = Some \<lparr>intent_display_name = ''order.pizza''\<rparr>,
          match_confidence = PyFloat 7 (-3),
          match_parameters = Some [(''size'',
             \<lparr>string_value = Some ''large'', number_value = None, bool_value = None,
              struct_value = None, value_str = ''large''\<rparr>)]\<rparr>,
         \<lparr>match_intent_of = None, match_confidence = PyFloat 1 (-2), match_parameters = None\<rparr>],
      mr_current_page = \<lparr>page_display_name = ''Start''\<rparr>\<rparr>"

definition example_client :: DialogflowCXClient where
  "example_client =
     \<lparr>project_id = ''p'', location = ''us-central1'', agent_id = ''a'',
      sessions_client =
        \<lparr>sc_detect_intent = (\<lambda>r. Inl (PyExn ''ServiceUnavailable'' ''503'')),
         sc_match_intent = (\<lambda>r. Inr example_matches)\<rparr>,
      agent_path = ''projects/p/locations/us-central1/agents/a''\<rparr>"


text \<open>
  A parameter mapping with one typed value per branch of the extractor: the first has a
  string and a numeric accessor, the second a numeric and a boolean one, the third a
  boolean one and a nested structure, the fourth a nested structure, the last none.
\<close>

definition example_parameters :: "(string \<times> TypedValue) list" where
  "example_parameters =
     [(''city'', \<lparr>string_value = Some ''Paris'', number_value = Some (PyFloat 3 0),
                  bool_value = None, struct_value = None, value_str = ''v1''\<rparr>),
      (''count'', \<lparr>string_value = None, number_value = Some (PyFloat 5 (-1)),
                   bool_value = Some True, struct_value = None, value_str = ''v2''\<rparr>),
      (''flag'', \<lparr>string_value = None, number_value = None, bool_value = Some True,
                  struct_value = Some [(''zip'', PStr ''75001'')], value_str = ''v3''\<rparr>),
      (''address'', \<lparr>string_value = None, number_value = None, bool_value = None,
                     struct_value = Some [(''zip'', PStr ''75001'')], value_str = ''v4''\<rparr>),
      (''other'', \<lparr>string_value = None, number_value = None, bool_value = None,
                   struct_value = None, value_str = ''v5''\<rparr>)]"


section \<open>Exceptions in sequence\<close>

lemma py_bind_Inl [simp]: "py_bind (Inl e) f = Inl e"
  by (simp add: py_bind_def)

lemma py_bind_Inr [simp]: "py_bind (Inr x) f = f x"
  by (simp add: py_bind_def)


section \<open>The webhook response builder\<close>

lemma append_messages_acc: "append_messages out xs = out @ append_messages [] xs"
proof (induction xs arbitrary: out)
  case Nil
  show ?case by simp
next
  case (Cons x xs)
  show ?case
    by (cases x)
      (simp_all add: Cons.IH [of out] Cons.IH [of "out @ _"] Cons.IH [of "[_]"]
        split: option.splits)
qed

lemma append_messages_append:
  "append_messages [] (xs @ ys) = append_messages [] xs @ append_messages [] ys"
proof (induction xs)
  case Nil
  show ?case by simp
next
  case (Cons x xs)
  show ?case
    by (cases x) (simp_all add: Cons.IH append_messages_acc [of "[_]"] split: option.splits)
qed

lemma create_webhook_response_no_messages:
  "map_of fr ''messages'' = None \<Longrightarrow>
   \<exists>rest. create_webhook_response fr = Inr (PDict ((''fulfillmentResponse'', PDict []) # rest))"
  by (simp add: create_webhook_response_def except_Exception_def py_bind_def Let_def
      split: option.splits)

lemma create_webhook_response_iterable:
  "map_of fr ''messages'' = Some ms \<Longrightarrow> py_iter ms = Inr xs \<Longrightarrow>
   \<exists>rest. create_webhook_response fr =
     Inr (PDict ((''fulfillmentResponse'',
                  PDict [(''messages'', PList (append_messages [] xs))]) # rest))"
  by (simp add: create_webhook_response_def except_Exception_def py_bind_def Let_def
      split: option.splits)

lemma create_webhook_response_not_iterable:
  "map_of fr ''messages'' = Some ms \<Longrightarrow> py_iter ms = Inl e \<Longrightarrow>
   create_webhook_response fr =
     Inr (PDict [(''error'', PStr (''Error creating webhook response: '' @ exn_str e))])"
  by (simp add: create_webhook_response_def except_Exception_def py_bind_def)

lemma append_messages_descriptor:
  "append_messages [] xs = concat (map descriptor_message xs)"
proof (induction xs)
  case Nil
  show ?case by simp
next
  case (Cons x xs)
  show ?case
    by (cases x) (simp_all add: Cons.IH append_messages_acc [of "[_]"] split: option.splits)
qed

lemma descriptor_message_empty: "(descriptor_message d = []) = (\<not> recognized d)"
  by (cases d) (simp_all split: option.splits)

text \<open>
  Claim C1, as stated, fails: a supplied but empty list of messages is emitted as the
  empty list under the key \<^verbatim>\<open>messages\<close>.
\<close>

theorem create_webhook_response_empty_messages_emitted:
  "create_webhook_response [(''messages'', PList [])] =
     Inr (PDict [(''fulfillmentResponse'', PDict [(''messages'', PList [])])])"
  by (simp add: create_webhook_response_def except_Exception_def py_bind_def)

text \<open>
  Claim C1 (amended). The builder applied to the empty description returns
  \<^verbatim>\<open>{"fulfillmentResponse": {}}\<close>. For every description the builder returns a result;
  when the description has no \<^verbatim>\<open>messages\<close> field, \<^verbatim>\<open>fulfillmentResponse\<close> is the
  empty object; the key \<^verbatim>\<open>messages\<close> is present in \<^verbatim>\<open>fulfillmentResponse\<close> exactly
  when a \<^verbatim>\<open>messages\<close> field was supplied and its value can be iterated. It then holds
  the list of the messages emitted for the descriptors, in order, nothing being emitted
  for an unrecognized descriptor: it is the empty list exactly when the supplied sequence
  is empty or every descriptor is unrecognized.
\<close>

theorem create_webhook_response_messages_key:
  "create_webhook_response [] = Inr (PDict [(''fulfillmentResponse'', PDict [])]) \<and>
   (\<exists>r. create_webhook_response fr = Inr r \<and>
      (map_of fr ''messages'' = None \<longrightarrow> field r ''fulfillmentResponse'' = Some (PDict [])) \<and>
      ((field2 r ''fulfillmentResponse'' ''messages'' \<noteq> None) =
         (\<exists>ms xs. map_of fr ''messages'' = Some ms \<and> py_iter ms = Inr xs)) \<and>
      (\<forall>v. field2 r ''fulfillmentResponse'' ''messages'' = Some v \<longrightarrow> (\<exists>ys. v = PList ys)) \<and>
      (\<forall>ms xs. map_of fr ''messages'' = Some ms \<and> py_iter ms = Inr xs \<longrightarrow>
         field2 r ''fulfillmentResponse'' ''messages'' =
           Some (PList (concat (map descriptor_message xs))) \<and>
         ((field2 r ''fulfillmentResponse'' ''messages'' = Some (PList [])) =
            (\<forall>d \<in> set xs. \<not> recognized d))))"
proof
  show "create_webhook_response [] = Inr (PDict [(''fulfillmentResponse'', PDict [])])"
    by (simp add: create_webhook_response_def except_Exception_def py_bind_def)
next
  show "\<exists>r. create_webhook_response fr = Inr r \<and>
      (map_of fr ''messages'' = None \<longrightarrow> field r ''fulfillmentResponse'' = Some (PDict [])) \<and>
      ((field2 r ''fulfillmentResponse'' ''messages'' \<noteq> None) =
         (\<exists>ms xs. map_of fr ''messages'' = Some ms \<and> py_iter ms = Inr xs)) \<and>
      (\<forall>v. field2 r ''fulfillmentResponse'' ''messages'' = Some v \<longrightarrow> (\<exists>ys. v = PList ys)) \<and>
      (\<forall>ms xs. map_of fr ''messages'' = Some ms \<and> py_iter ms = Inr xs \<longrightarrow>
         field2 r ''fulfillmentResponse'' ''messages'' =
           Some (PList (concat (map descriptor_message xs))) \<and>
         ((field2 r ''fulfillmentResponse'' ''messages'' = Some (PList [])) =
            (\<forall>d \<in> set xs. \<not> recognized d)))"
  proof (cases "map_of fr ''messages''")
    case None
    from create_webhook_response_no_messages [OF None] obtain rest where
      "create_webhook_response fr = Inr (PDict ((''fulfillmentResponse'', PDict []) # rest))" ..
    with None show ?thesis by (simp add: field2_def)
  next
    case (Some ms)
    show ?thesis
    proof (cases "py_iter ms")
      case (Inl e)
      from create_webhook_response_not_iterable [OF Some Inl] Some Inl
      show ?thesis by (simp add: field2_def)
    next
      case (Inr xs)
      from create_webhook_response_iterable [OF Some Inr] obtain rest where
        "create_webhook_response fr =
           Inr (PDict ((''fulfillmentResponse'',
                        PDict [(''messages'', PList (append_messages [] xs))]) # rest))" ..
      with Some Inr show ?thesis
        by (simp add: field2_def append_messages_descriptor descriptor_message_empty)
    qed
  qed
qed

theorem create_webhook_response_messages_key_witness:
  "(\<exists>r. create_webhook_response [(''target_page'', PStr ''p'')] = Inr r \<and>
       field r ''fulfillmentResponse'' = Some (PDict []) \<and>
       field2 r ''fulfillmentResponse'' ''messages'' = None) \<and>
   (\<exists>r. create_webhook_response
          [(''messages'', PList [PInt 1, PDict [(''other'', PNone)]])] = Inr r \<and>
       field2 r ''fulfillmentResponse'' ''messages'' = Some (PList [])) \<and>
   (\<exists>r. create_webhook_response
          [(''messages'', PList [PInt 1, PStr ''hello'', PDict [(''payload'', PInt 2)]])]
          = Inr r \<and>
       field2 r ''fulfillmentResponse'' ''messages'' =
         Some (PList [PDict [(''text'', PDict [(''text'', PList [PStr ''hello''])])],
                      PDict [(''payload'', PInt 2)]]))"
proof -
  from create_webhook_response_messages_key [of "[(''target_page'', PStr ''p'')]"]
  have a: "\<exists>r. create_webhook_response [(''target_page'', PStr ''p'')] = Inr r \<and>
       field r ''fulfillmentResponse'' = Some (PDict []) \<and>
       field2 r ''fulfillmentResponse'' ''messages'' = None"
    by auto
  from create_webhook_response_messages_key
    [of "[(''messages'', PList [PInt 1, PDict [(''other'', PNone)]])]"]
  have b: "\<exists>r. create_webhook_response
          [(''messages'', PList [PInt 1, PDict [(''other'', PNone)]])] = Inr r \<and>
       field2 r ''fulfillmentResponse'' ''messages'' = Some (PList [])"
    by auto
  from create_webhook_response_messages_key
    [of "[(''messages'', PList [PInt 1, PStr ''hello'', PDict [(''payload'', PInt 2)]])]"]
  have c: "\<exists>r. create_webhook_response
          [(''messages'', PList [PInt 1, PStr ''hello'', PDict [(''payload'', PInt 2)]])]
          = Inr r \<and>
       field2 r ''fulfillmentResponse'' ''messages'' =
         Some (PList [PDict [(''text'', PDict [(''text'', PList [PStr ''hello''])])],
                      PDict [(''payload'', PInt 2)]])"
    by auto
  from a b c show ?thesis by simp
qed

text \<open>
  Claim C4. Let the \<^verbatim>\<open>messages\<close> field iterate as \<open>pre @ [d] @ post\<close>. When the
  descriptor \<open>d\<close> is a raw string \<open>s\<close>, or a mapping whose \<^verbatim>\<open>text\<close> field holds \<open>v\<close>, the
  builder emits \<^verbatim>\<open>{"text": {"text": [v]}}\<close> for it (with \<open>v\<close> the string itself in the
  first case), at its place between what is emitted for \<open>pre\<close> and for \<open>post\<close>. The raw
  value is wrapped in a one-element list whatever it is, a list included.
\<close>

theorem create_webhook_response_text_descriptor:
  "map_of fr ''messages'' = Some ms \<Longrightarrow>
   py_iter ms = Inr (pre @ [d] @ post) \<Longrightarrow>
   (d = PStr s \<and> v = PStr s) \<or> (d = PDict m \<and> map_of m ''text'' = Some v) \<Longrightarrow>
   \<exists>r. create_webhook_response fr = Inr r \<and>
       field2 r ''fulfillmentResponse'' ''messages'' =
         Some (PList (append_messages [] pre
                      @ [PDict [(''text'', PDict [(''text'', PList [v])])]]
                      @ append_messages [] post))"
proof -
  assume ms: "map_of fr ''messages'' = Some ms"
    and it: "py_iter ms = Inr (pre @ [d] @ post)"
    and d: "(d = PStr s \<and> v = PStr s) \<or> (d = PDict m \<and> map_of m ''text'' = Some v)"
  from d have one: "append_messages [] (d # post) =
      PDict [(''text'', PDict [(''text'', PList [v])])] # append_messages [] post"
    by (auto simp add: append_messages_acc [of "[_]"])
  from create_webhook_response_iterable [OF ms it] obtain rest where
    "create_webhook_response fr =
       Inr (PDict ((''fulfillmentResponse'',
              PDict [(''messages'', PList (append_messages [] (pre @ [d] @ post)))]) # rest))" ..
  then show ?thesis
    by (simp add: field2_def append_messages_append one del: append_messages.simps)
qed

theorem create_webhook_response_text_descriptor_witness:
  "\<exists>r. create_webhook_response
          [(''messages'', PList [PStr ''hello'',
                                 PDict [(''text'', PList [PStr ''a'', PStr ''b''])],
                                 PInt 3])] = Inr r \<and>
       field2 r ''fulfillmentResponse'' ''messages'' =
         Some (PList [PDict [(''text'', PDict [(''text'', PList [PStr ''hello''])])],
                      PDict [(''text'',
                              PDict [(''text'', PList [PList [PStr ''a'', PStr ''b'']])])]])"
  using create_webhook_response_text_descriptor
    [of "[(''messages'', PList [PStr ''hello'',
                                PDict [(''text'', PList [PStr ''a'', PStr ''b''])],
                                PInt 3])]"
      "PList [PStr ''hello'', PDict [(''text'', PList [PStr ''a'', PStr ''b''])], PInt 3]"
      "[PStr ''hello'']" "PDict [(''text'', PList [PStr ''a'', PStr ''b''])]" "[PInt 3]"
      "[]" "PList [PStr ''a'', PStr ''b'']" "[(''text'', PList [PStr ''a'', PStr ''b''])]"]
    create_webhook_response_text_descriptor
    [of "[(''messages'', PList [PStr ''hello'',
                                PDict [(''text'', PList [PStr ''a'', PStr ''b''])],
                                PInt 3])]"
      "PList [PStr ''hello'', PDict [(''text'', PList [PStr ''a'', PStr ''b''])], PInt 3]"
      "[]" "PStr ''hello''" "[PDict [(''text'', PList [PStr ''a'', PStr ''b''])], PInt 3]"
      "''hello''" "PStr ''hello''" "[]"]
  by simp

text \<open>
  Claim C10. Two descriptions that agree on the fields \<^verbatim>\<open>messages\<close>,
  \<^verbatim>\<open>parameter_updates\<close>, \<^verbatim>\<open>target_page\<close> and \<^verbatim>\<open>target_flow\<close> (absence included) get
  equal results from the builder, and the result is an object whose keys are among
  \<^verbatim>\<open>fulfillmentResponse\<close>, \<^verbatim>\<open>sessionInfo\<close>, \<^verbatim>\<open>targetPage\<close>, \<^verbatim>\<open>targetFlow\<close> and
  \<^verbatim>\<open>error\<close>: no other key of the input reaches the output.
\<close>

theorem create_webhook_response_depends_on_four_fields:
  "(\<forall>k \<in> {''messages'', ''parameter_updates'', ''target_page'', ''target_flow''}.
      map_of fr1 k = map_of fr2 k) \<Longrightarrow>
   create_webhook_response fr1 = create_webhook_response fr2 \<and>
   (\<exists>d. create_webhook_response fr1 = Inr (PDict d) \<and>
        fst ` set d \<subseteq>
          {''fulfillmentResponse'', ''sessionInfo'', ''targetPage'', ''targetFlow'', ''error''})"
proof -
  assume a: "\<forall>k \<in> {''messages'', ''parameter_updates'', ''target_page'', ''target_flow''}.
      map_of fr1 k = map_of fr2 k"
  have eq: "create_webhook_response fr1 = create_webhook_response fr2"
    using a by (simp add: create_webhook_response_def)
  have keys: "\<exists>d. create_webhook_response fr1 = Inr (PDict d) \<and>
      fst ` set d \<subseteq>
        {''fulfillmentResponse'', ''sessionInfo'', ''targetPage'', ''targetFlow'', ''error''}"
    by (auto simp add: create_webhook_response_def except_Exception_def py_bind_def Let_def
        split: option.splits sum.splits)
  from eq keys show ?thesis by simp
qed

theorem create_webhook_response_depends_on_four_fields_witness:
  "create_webhook_response [(''secret'', PStr ''x''), (''target_page'', PStr ''p'')] =
   create_webhook_response [(''target_page'', PStr ''p''), (''other'', PInt 1)] \<and>
   create_webhook_response [(''secret'', PStr ''x''), (''target_page'', PStr ''p'')] =
     Inr (PDict [(''fulfillmentResponse'', PDict []), (''targetPage'', PStr ''p'')])"
  using create_webhook_response_depends_on_four_fields
    [of "[(''secret'', PStr ''x''), (''target_page'', PStr ''p'')]"
      "[(''target_page'', PStr ''p''), (''other'', PInt 1)]"]
  by (simp add: create_webhook_response_def except_Exception_def py_bind_def)


section \<open>The parameter extractor\<close>

lemma extract_items_keys:
  "fst ` set (extract_items acc items) = fst ` set acc \<union> fst ` set items"
  by (induction acc items rule: extract_items.induct) (auto simp add: AList.dom_update)

lemma extract_items_distinct:
  "distinct (map fst acc) \<Longrightarrow> distinct (map fst (extract_items acc items))"
  by (induction acc items rule: extract_items.induct) (simp_all add: AList.distinct_update)

lemma update_fresh: "k \<notin> fst ` set al \<Longrightarrow> AList.update k v al = al @ [(k, v)]"
  by (induction al) auto

lemma extract_items_map:
  "distinct (map fst items) \<Longrightarrow> fst ` set acc \<inter> fst ` set items = {} \<Longrightarrow>
   extract_items acc items = acc @ map (\<lambda>kv. (fst kv, extract_value (snd kv))) items"
proof (induction acc items rule: extract_items.induct)
  case (1 param_dict)
  show ?case by simp
next
  case (2 param_dict key v rest)
  from 2(2,3) have fresh: "key \<notin> fst ` set param_dict" by auto
  from 2(2,3) have "distinct (map fst rest)"
    and "fst ` set (param_dict @ [(key, extract_value v)]) \<inter> fst ` set rest = {}"
    by auto
  with 2(1) [unfolded update_fresh [OF fresh]] fresh
  show ?case
    by (simp add: update_fresh)
qed

lemma extract_parameters_map:
  "distinct (map fst items) \<Longrightarrow>
   extract_parameters (Some items) = map (\<lambda>kv. (fst kv, extract_value (snd kv))) items"
  using extract_items_map [of items "[]"] by (simp add: extract_parameters_def)

lemma map_of_map_snd:
  "(k, v) \<in> set items \<Longrightarrow> distinct (map fst items) \<Longrightarrow>
   map_of (map (\<lambda>kv. (fst kv, f (snd kv))) items) k = Some (f v)"
  by (induction items) (auto simp add: rev_image_eqI)

text \<open>
  Claim C2. For every key \<open>k\<close> of the input mapping, with typed value \<open>v\<close>, the extractor
  stores under \<open>k\<close>: the string accessor's value when \<open>v\<close> has one (whatever other
  accessors it has, a numeric one included); else the numeric accessor's value when it
  has one; else the boolean accessor's; else the nested structure as a dictionary; else
  the string representation of \<open>v\<close>.
\<close>

theorem extract_parameters_precedence:
  "distinct (map fst items) \<Longrightarrow> (k, v) \<in> set items \<Longrightarrow>
   (\<forall>s. string_value v = Some s \<longrightarrow>
        map_of (extract_parameters (Some items)) k = Some (PStr s)) \<and>
   (\<forall>x. string_value v = None \<and> number_value v = Some x \<longrightarrow>
        map_of (extract_parameters (Some items)) k = Some (PFloat x)) \<and>
   (\<forall>b. string_value v = None \<and> number_value v = None \<and> bool_value v = Some b \<longrightarrow>
        map_of (extract_parameters (Some items)) k = Some (PBool b)) \<and>
   (\<forall>d. string_value v = None \<and> number_value v = None \<and> bool_value v = None \<and>
        struct_value v = Some d \<longrightarrow>
        map_of (extract_parameters (Some items)) k = Some (PDict d)) \<and>
   (string_value v = None \<and> number_value v = None \<and> bool_value v = None \<and>
        struct_value v = None \<longrightarrow>
        map_of (extract_parameters (Some items)) k = Some (PStr (value_str v)))"
proof -
  assume d: "distinct (map fst items)" and kv: "(k, v) \<in> set items"
  have "map_of (extract_parameters (Some items)) k = Some (extract_value v)"
    by (simp add: extract_parameters_map [OF d] map_of_map_snd [OF kv d])
  then show ?thesis by (simp add: extract_value_def)
qed

theorem extract_parameters_precedence_witness:
  "map_of (extract_parameters (Some example_parameters)) ''city'' = Some (PStr ''Paris'') \<and>
   map_of (extract_parameters (Some example_parameters)) ''count''
     = Some (PFloat (PyFloat 5 (-1))) \<and>
   map_of (extract_parameters (Some example_parameters)) ''flag'' = Some (PBool True) \<and>
   map_of (extract_parameters (Some example_parameters)) ''address''
     = Some (PDict [(''zip'', PStr ''75001'')]) \<and>
   map_of (extract_parameters (Some example_parameters)) ''other'' = Some (PStr ''v5'')"
proof -
  have d: "distinct (map fst example_parameters)"
    by (simp add: example_parameters_def)
  have m1: "(''city'', \<lparr>string_value = Some ''Paris'', number_value = Some (PyFloat 3 0),
      bool_value = None, struct_value = None, value_str = ''v1''\<rparr>) \<in> set example_parameters"
    and m2: "(''count'', \<lparr>string_value = None, number_value = Some (PyFloat 5 (-1)),
      bool_value = Some True, struct_value = None, value_str = ''v2''\<rparr>)
        \<in> set example_parameters"
    and m3: "(''flag'', \<lparr>string_value = None, number_value = None, bool_value = Some True,
      struct_value = Some [(''zip'', PStr ''75001'')], value_str = ''v3''\<rparr>)
        \<in> set example_parameters"
    and m4: "(''address'', \<lparr>string_value = None, number_value = None, bool_value = None,
      struct_value = Some [(''zip'', PStr ''75001'')], value_str = ''v4''\<rparr>)
        \<in> set example_parameters"
    and m5: "(''other'', \<lparr>string_value = None, number_value = None, bool_value = None,
      struct_value = None, value_str = ''v5''\<rparr>) \<in> set example_parameters"
    by (simp_all add: example_parameters_def)
  from extract_parameters_precedence [OF d m1]
  have r1: "map_of (extract_parameters (Some example_parameters)) ''city''
      = Some (PStr ''Paris'')"
    by simp
  from extract_parameters_precedence [OF d m2]
  have r2: "map_of (extract_parameters (Some example_parameters)) ''count''
      = Some (PFloat (PyFloat 5 (-1)))"
    by simp
  from extract_parameters_precedence [OF d m3]
  have r3: "map_of (extract_parameters (Some example_parameters)) ''flag''
      = Some (PBool True)"
    by auto
  from extract_parameters_precedence [OF d m4]
  have r4: "map_of (extract_parameters (Some example_parameters)) ''address''
      = Some (PDict [(''zip'', PStr ''75001'')])"
    by simp
  from extract_parameters_precedence [OF d m5]
  have r5: "map_of (extract_parameters (Some example_parameters)) ''other''
      = Some (PStr ''v5'')"
    by simp
  from r1 r2 r3 r4 r5 show ?thesis by simp
qed

text \<open>
  Claim C7. The extractor returns the empty mapping for an absent and for an empty
  input. For every input mapping the keys of the output are exactly the keys of the
  input, each bound once; when the input's keys are distinct, as those of a mapping are,
  the output has one entry per input entry, in the same order. The extractor is a total
  function: it has no error result.
\<close>

theorem extract_parameters_keys:
  "extract_parameters None = [] \<and>
   extract_parameters (Some []) = [] \<and>
   fst ` set (extract_parameters (Some items)) = fst ` set items \<and>
   distinct (map fst (extract_parameters (Some items))) \<and>
   (distinct (map fst items) \<longrightarrow> map fst (extract_parameters (Some items)) = map fst items)"
proof -
  have keys: "fst ` set (extract_parameters (Some items)) = fst ` set items"
    by (simp add: extract_parameters_def extract_items_keys)
  have dist: "distinct (map fst (extract_parameters (Some items)))"
    by (simp add: extract_parameters_def extract_items_distinct)
  have ord: "distinct (map fst items) \<longrightarrow>
      map fst (extract_parameters (Some items)) = map fst items"
    by (simp add: extract_parameters_map comp_def)
  from keys dist ord show ?thesis by (simp add: extract_parameters_def)
qed

theorem extract_parameters_keys_witness:
  "map fst (extract_parameters (Some
      [(''a'', \<lparr>string_value = None, number_value = None, bool_value = Some True,
                struct_value = None, value_str = ''True''\<rparr>),
       (''b'', \<lparr>string_value = None, number_value = None, bool_value = None,
                struct_value = None, value_str = ''obj''\<rparr>)])) = [''a'', ''b'']"
  using extract_parameters_keys
    [of "[(''a'', \<lparr>string_value = None, number_value = None, bool_value = Some True,
                   struct_value = None, value_str = ''True''\<rparr>),
          (''b'', \<lparr>string_value = None, number_value = None, bool_value = None,
                   struct_value = None, value_str = ''obj''\<rparr>)]"]
  by simp


section \<open>The intent-result normalizer and the match normalizer\<close>

lemma process_messages_acc: "process_messages acc xs = acc @ process_messages [] xs"
proof (induction xs arbitrary: acc)
  case Nil
  show ?case by simp
next
  case (Cons x xs)
  show ?case
    by (simp add: Cons.IH [of acc] Cons.IH [of "acc @ _"] Cons.IH [of "[_]"]
        split: option.splits)
qed

lemma process_messages_append:
  "process_messages [] (xs @ ys) = process_messages [] xs @ process_messages [] ys"
proof (induction xs)
  case Nil
  show ?case by simp
next
  case (Cons x xs)
  show ?case
    by (simp add: Cons.IH process_messages_acc [of "[_]"] split: option.splits)
qed

text \<open>
  Claim C3. The normalized result's \<^verbatim>\<open>end_interaction\<close> is true exactly when some
  message of the response, of any kind, has a string representation that contains
  \<^verbatim>\<open>end_interaction\<close>; a response with no messages gives the empty message list and
  \<^verbatim>\<open>end_interaction\<close> false.
\<close>

theorem process_response_end_interaction:
  "field (PDict (process_response response)) ''end_interaction'' =
     Some (PBool (\<exists>msg \<in> set (response_messages (query_result response)).
                    \<exists>pre post. msg_str msg = pre @ ''end_interaction'' @ post)) \<and>
   (response_messages (query_result response) = [] \<longrightarrow>
      field (PDict (process_response response)) ''messages'' = Some (PList []) \<and>
      field (PDict (process_response response)) ''end_interaction'' = Some (PBool False))"
  by (simp add: process_response_def Let_def list_ex_iff sublist_def)

theorem process_response_end_interaction_witness:
  "field (PDict (process_response
     \<lparr>query_result = \<lparr>response_messages = [], qr_match = no_intent_match,
        qr_parameters = None,
        qr_current_page = \<lparr>page_display_name = ''Start''\<rparr>, qr_transcript = ''''\<rparr>\<rparr>))
       ''messages'' = Some (PList []) \<and>
   field (PDict (process_response
     \<lparr>query_result = \<lparr>response_messages = [], qr_match = no_intent_match,
        qr_parameters = None,
        qr_current_page = \<lparr>page_display_name = ''Start''\<rparr>, qr_transcript = ''''\<rparr>\<rparr>))
       ''end_interaction'' = Some (PBool False) \<and>
   process_response
     \<lparr>query_result = \<lparr>response_messages =
          [\<lparr>msg_text = None, msg_payload = None, msg_str = ''end_interaction { }''\<rparr>],
        qr_match = no_intent_match, qr_parameters = None,
        qr_current_page = \<lparr>page_display_name = ''End''\<rparr>, qr_transcript = ''bye''\<rparr>\<rparr>
     = [(''messages'', PList []), (''intent'', PNone), (''parameters'', PDict []),
        (''current_page'', PStr ''End''), (''transcript'', PStr ''bye''),
        (''end_interaction'', PBool True)]"
  using process_response_end_interaction
    [of "\<lparr>query_result = \<lparr>response_messages = [], qr_match = no_intent_match,
            qr_parameters = None,
            qr_current_page = \<lparr>page_display_name = ''Start''\<rparr>, qr_transcript = ''''\<rparr>\<rparr>"]
  by (simp add: process_response_def Let_def no_intent_match_def extract_parameters_def
      sublist_Cons_right)

text \<open>
  Claim C8. When the remote matching call returns a response, the client's
  \<^verbatim>\<open>match_intent\<close> returns, under \<^verbatim>\<open>matches\<close>, one entry per candidate in the
  service's order; the entry's \<^verbatim>\<open>intent\<close> is the candidate's intent display name, or
  \<^verbatim>\<open>No intent\<close> when the candidate has no intent, its \<^verbatim>\<open>confidence\<close> is the candidate's
  confidence, and its \<^verbatim>\<open>parameters\<close> are the parameter extractor's output.
\<close>

theorem match_intent_entries:
  "sc_match_intent (sessions_client self)
     \<lparr>mreq_session = create_session_path env n self (Some session_id),
      mreq_query_input = \<lparr>qi_text = Some \<lparr>ti_text = txt\<rparr>, qi_audio = None,
                           qi_language_code = language_code\<rparr>\<rparr> = Inr response \<Longrightarrow>
   \<exists>result entries.
     DialogflowCXClient_match_intent env n self session_id txt language_code = Inr result \<and>
     map_of result ''matches'' = Some (PList entries) \<and>
     length entries = length (matches response) \<and>
     (\<forall>i < length entries.
        field (entries ! i) ''intent'' =
          Some (PStr (case match_intent_of (matches response ! i) of
                        Some it \<Rightarrow> intent_display_name it
                      | None \<Rightarrow> ''No intent'')) \<and>
        field (entries ! i) ''confidence'' =
          Some (PFloat (match_confidence (matches response ! i))) \<and>
        field (entries ! i) ''parameters'' =
          Some (PDict (extract_parameters (match_parameters (matches response ! i)))))"
  by (simp add: DialogflowCXClient_match_intent_def Let_def)

theorem match_intent_entries_witness:
  "DialogflowCXClient_match_intent example_env 0 example_client ''s1'' ''pizza'' ''en-US'' =
     Inr [(''matches'',
           PList [PDict [(''intent'', PStr ''order.pizza''),
                         (''confidence'', PFloat (PyFloat 7 (-3))),
                         (''parameters'', PDict [(''size'', PStr ''large'')])],
                  PDict [(''intent'', PStr ''No intent''),
                         (''confidence'', PFloat (PyFloat 1 (-2))),
                         (''parameters'', PDict [])]]),
          (''current_page'', PStr ''Start'')]"
  using match_intent_entries
    [of example_client example_env 0 "''s1''" "''pizza''" "''en-US''" example_matches]
  by (simp add: DialogflowCXClient_match_intent_def example_client_def example_matches_def
      extract_parameters_def extract_value_def Let_def)


section \<open>The webhook request parser\<close>

lemma parse_messages_acc:
  "parse_messages acc xs = py_bind (parse_messages [] xs) (\<lambda>r. Inr (acc @ r))"
proof (induction xs arbitrary: acc)
  case Nil
  show ?case by simp
next
  case (Cons x xs)
  show ?case
    by (simp add: py_bind_def Cons.IH [of acc] Cons.IH [of "acc @ _"] Cons.IH [of "[_]"]
        split: sum.splits)
qed

lemma parse_messages_append:
  "parse_messages [] (xs @ ys) =
     py_bind (parse_messages [] xs) (\<lambda>a. py_bind (parse_messages [] ys) (\<lambda>b. Inr (a @ b)))"
proof (induction xs)
  case Nil
  show ?case by (simp add: py_bind_def split: sum.splits)
next
  case (Cons x xs)
  show ?case
    by (simp add: py_bind_def Cons.IH parse_messages_acc [of "[_]"] split: sum.splits)
qed

lemma parse_messages_well_shaped:
  "list_all well_shaped_message ms \<Longrightarrow>
   parse_messages [] ms = Inr (concat (map prior_message ms))"
proof (induction ms)
  case Nil
  show ?case by simp
next
  case (Cons m ms)
  then obtain md where m: "m = PDict md" by (cases m) simp_all
  from Cons have tl: "parse_messages [] ms = Inr (concat (map prior_message ms))" by simp
  from Cons(2) m show ?case
    by (auto simp add: parse_messages_acc [of "[_]"] tl prior_message_def [of "PDict md"]
        field2_def split: option.splits pyval.splits)
qed

lemma parse_request_data_well_shaped:
  "get_or d ''sessionInfo'' (PDict []) = PDict sess \<Longrightarrow>
   get_or d ''intentInfo'' (PDict []) = PDict intent \<Longrightarrow>
   get_or d ''pageInfo'' (PDict []) = PDict page \<Longrightarrow>
   get_or d ''messages'' (PList []) = PList ms \<Longrightarrow>
   list_all well_shaped_message ms \<Longrightarrow>
   parse_request_data (PDict d) =
     Inr (PDict [(''session_id'', get_or sess ''session'' (PStr [])),
                 (''intent_name'', get_or intent ''displayName'' (PStr [])),
                 (''parameters'', get_or sess ''parameters'' (PDict [])),
                 (''current_page'', get_or page ''displayName'' (PStr [])),
                 (''messages'', PList (concat (map prior_message ms))),
                 (''raw_request'', PDict d)])"
  by (simp add: parse_request_data_def get_or_def parse_messages_well_shaped)

lemma text_branch_raises:
  "py_contains ''text'' msg = Inr True \<Longrightarrow> field2 msg ''text'' ''text'' = None \<Longrightarrow>
   isl (parse_messages acc (msg # rest))"
proof (cases msg)
  case (PDict md)
  assume c: "py_contains ''text'' msg = Inr True" and f: "field2 msg ''text'' ''text'' = None"
  from c PDict obtain t where t: "map_of md ''text'' = Some t" by auto
  with f PDict have "isl (py_getitem t ''text'')"
    by (cases t) (simp_all add: field2_def split: option.splits)
  then obtain e where "py_getitem t ''text'' = Inl e" by (cases "py_getitem t ''text''") simp_all
  with PDict t show ?thesis by simp
qed simp_all

lemma parse_messages_raises:
  "py_contains ''text'' msg = Inr True \<Longrightarrow> field2 msg ''text'' ''text'' = None \<Longrightarrow>
   isl (parse_messages [] (pre @ [msg] @ post))"
proof -
  assume c: "py_contains ''text'' msg = Inr True" and f: "field2 msg ''text'' ''text'' = None"
  from text_branch_raises [OF c f, of "[]" post]
  obtain e where "parse_messages [] (msg # post) = Inl e"
    by (cases "parse_messages [] (msg # post)") simp_all
  then show ?thesis
    by (simp add: parse_messages_append py_bind_def del: parse_messages.simps split: sum.splits)
qed

lemma isl_py_bind: "(\<And>x. m = Inr x \<Longrightarrow> isl (f x)) \<Longrightarrow> isl (py_bind m f)"
  by (cases m) simp_all

lemma parse_request_data_raises:
  "get_or d ''messages'' (PList []) = prior \<Longrightarrow> py_iter prior = Inr (pre @ [msg] @ post) \<Longrightarrow>
   py_contains ''text'' msg = Inr True \<Longrightarrow> field2 msg ''text'' ''text'' = None \<Longrightarrow>
   isl (parse_request_data (PDict d))"
proof -
  assume g: "get_or d ''messages'' (PList []) = prior"
    and i: "py_iter prior = Inr (pre @ [msg] @ post)"
    and c: "py_contains ''text'' msg = Inr True" and f: "field2 msg ''text'' ''text'' = None"
  from parse_messages_raises [OF c f, of pre post]
  have e: "\<And>x. parse_messages [] (pre @ [msg] @ post) \<noteq> Inr x"
    by (cases "parse_messages [] (pre @ [msg] @ post)") simp_all
  have m: "py_get (PDict d) ''messages'' (PList []) = Inr prior"
    using g by (simp add: get_or_def)
  show ?thesis
    unfolding parse_request_data_def
    apply (intro isl_py_bind)
    using m i e apply (simp del: parse_messages.simps py_get.simps)
    done
qed

text \<open>
  Claim C9, as stated, fails in the webhook request parser: the prior-turn message
  \<^verbatim>\<open>{"text": "hi", "payload": 1}\<close> passes the text test and the payload test, and it is
  not classified as \<^verbatim>\<open>text\<close>: reading \<^verbatim>\<open>msg["text"]["text"]\<close> raises, and the whole
  request gets an error result with no message list.
\<close>

theorem parse_webhook_request_text_and_payload_is_error:
  "py_contains ''text'' (PDict [(''text'', PStr ''hi''), (''payload'', PInt 1)]) = Inr True \<and>
   py_contains ''payload'' (PDict [(''text'', PStr ''hi''), (''payload'', PInt 1)])
     = Inr True \<and>
   json_loads example_env ''{\"messages\":[{\"text\":\"hi\",\"payload\":1}]}'' =
     Inr (PDict [(''messages'',
            PList [PDict [(''text'', PStr ''hi''), (''payload'', PInt 1)]])]) \<and>
   isl (parse_messages [] [PDict [(''text'', PStr ''hi''), (''payload'', PInt 1)]]) \<and>
   result_field (parse_webhook_request example_env
       ''{\"messages\":[{\"text\":\"hi\",\"payload\":1}]}'') ''messages'' = None \<and>
   result_field (parse_webhook_request example_env
       ''{\"messages\":[{\"text\":\"hi\",\"payload\":1}]}'') ''error'' =
     Some (PStr (''Error parsing webhook request: string indices must be integers, not ''
                 @ quoted ''str''))"
  by (simp add: parse_webhook_request_def example_env_def example_json_loads_def
      parse_request_data_def except_Exception_def result_field_def)

text \<open>
  Claim C9 (amended). In the intent-result normalizer, a message whose text part passes
  the truth test is tagged \<^verbatim>\<open>text\<close>, at its place, whatever its payload part is; and a
  message that yields a \<^verbatim>\<open>payload\<close> entry has a text part that fails the test. In the
  webhook request parser the text test comes first as well: a message that yields a
  \<^verbatim>\<open>payload\<close> entry does not contain \<^verbatim>\<open>text\<close>; a message object with a \<^verbatim>\<open>text\<close> field
  holding an object with a \<^verbatim>\<open>text\<close> field is tagged \<^verbatim>\<open>text\<close>, at its place, whatever
  else it holds (a \<^verbatim>\<open>payload\<close> field included); and a message that contains \<^verbatim>\<open>text\<close>
  without that form makes the message loop raise, so that the whole request gets an
  error result.
\<close>

theorem text_branch_first:
  "(\<forall>t. response_messages (query_result response) = pre @ [m] @ post \<and>
        msg_text m = Some t \<longrightarrow>
      map_of (process_response response) ''messages'' =
        Some (PList (process_messages [] pre
                     @ [PDict [(''type'', PStr ''text''),
                               (''content'', PStr (join [CHR 0x0A] (text_lines t)))]]
                     @ process_messages [] post))) \<and>
   (\<forall>c. process_messages [] [m] = [PDict [(''type'', PStr ''payload''), (''content'', c)]] \<longrightarrow>
      msg_text m = None) \<and>
   (\<forall>td c. map_of md ''text'' = Some (PDict td) \<and> map_of td ''text'' = Some c \<longrightarrow>
      parse_messages [] (pre' @ [PDict md] @ post') =
        py_bind (parse_messages [] pre') (\<lambda>a.
        py_bind (parse_messages [] post') (\<lambda>b.
          Inr (a @ [PDict [(''type'', PStr ''text''), (''content'', c)]] @ b)))) \<and>
   (\<forall>c. parse_messages [] [msg] =
          Inr [PDict [(''type'', PStr ''payload''), (''content'', c)]] \<longrightarrow>
      py_contains ''text'' msg = Inr False) \<and>
   (py_contains ''text'' msg = Inr True \<and> field2 msg ''text'' ''text'' = None \<longrightarrow>
      isl (parse_messages [] (pre' @ [msg] @ post')) \<and>
      (\<forall>d prior. json_loads env s = Inr (PDict d) \<and>
          get_or d ''messages'' (PList []) = prior \<and>
          py_iter prior = Inr (pre' @ [msg] @ post') \<longrightarrow>
          (\<exists>e. parse_webhook_request env s =
             Inr (PDict [(''error'',
                    PStr (''Error parsing webhook request: '' @ exn_str e))]))))"
proof (intro conjI allI impI)
  fix t
  assume a: "response_messages (query_result response) = pre @ [m] @ post \<and>
    msg_text m = Some t"
  then have "process_messages [] (m # post) =
      PDict [(''type'', PStr ''text''), (''content'', PStr (join [CHR 0x0A] (text_lines t)))]
        # process_messages [] post"
    by (simp add: process_messages_acc [of "[_]"])
  with a show "map_of (process_response response) ''messages'' =
        Some (PList (process_messages [] pre
                     @ [PDict [(''type'', PStr ''text''),
                               (''content'', PStr (join [CHR 0x0A] (text_lines t)))]]
                     @ process_messages [] post))"
    by (simp add: process_response_def Let_def process_messages_append
        del: process_messages.simps)
next
  fix c
  assume "process_messages [] [m] = [PDict [(''type'', PStr ''payload''), (''content'', c)]]"
  then show "msg_text m = None"
    by (cases "msg_text m") simp_all
next
  fix td c
  assume a: "map_of md ''text'' = Some (PDict td) \<and> map_of td ''text'' = Some c"
  then have "parse_messages [] (PDict md # post') =
      py_bind (parse_messages [] post') (\<lambda>b.
        Inr (PDict [(''type'', PStr ''text''), (''content'', c)] # b))"
    by (simp add: parse_messages_acc [of "[_]"])
  then show "parse_messages [] (pre' @ [PDict md] @ post') =
        py_bind (parse_messages [] pre') (\<lambda>a.
        py_bind (parse_messages [] post') (\<lambda>b.
          Inr (a @ [PDict [(''type'', PStr ''text''), (''content'', c)]] @ b)))"
    by (simp add: parse_messages_append py_bind_def del: parse_messages.simps
        split: sum.splits)
next
  fix c
  assume a: "parse_messages [] [msg] =
    Inr [PDict [(''type'', PStr ''payload''), (''content'', c)]]"
  show "py_contains ''text'' msg = Inr False"
  proof (cases "py_contains ''text'' msg")
    case (Inl e)
    with a show ?thesis by simp
  next
    case (Inr b)
    with a show ?thesis
      by (cases b) (auto simp add: py_bind_def split: sum.splits)
  qed
next
  assume a: "py_contains ''text'' msg = Inr True \<and> field2 msg ''text'' ''text'' = None"
  then show "isl (parse_messages [] (pre' @ [msg] @ post'))"
    by (intro parse_messages_raises) simp_all
next
  fix d prior
  assume a: "py_contains ''text'' msg = Inr True \<and> field2 msg ''text'' ''text'' = None"
    and b: "json_loads env s = Inr (PDict d) \<and>
          get_or d ''messages'' (PList []) = prior \<and>
          py_iter prior = Inr (pre' @ [msg] @ post')"
  from a b have "isl (parse_request_data (PDict d))"
    by (intro parse_request_data_raises [of d prior pre' msg post']) simp_all
  then obtain e where "parse_request_data (PDict d) = Inl e"
    by (cases "parse_request_data (PDict d)") simp_all
  with b show "\<exists>e. parse_webhook_request env s =
             Inr (PDict [(''error'',
                    PStr (''Error parsing webhook request: '' @ exn_str e))])"
    by (auto simp add: parse_webhook_request_def except_Exception_def)
qed

theorem text_branch_first_witness:
  "map_of (process_response
     \<lparr>query_result = \<lparr>response_messages =
          [\<lparr>msg_text = Some \<lparr>text_lines = [''Hi'', ''there'']\<rparr>,
            msg_payload = Some [(''k'', PInt 1)], msg_str = ''text { }''\<rparr>],
        qr_match = no_intent_match, qr_parameters = None,
        qr_current_page = \<lparr>page_display_name = ''Start''\<rparr>, qr_transcript = ''''\<rparr>\<rparr>)
     ''messages''
     = Some (PList [PDict [(''type'', PStr ''text''),
                           (''content'', PStr (''Hi'' @ [CHR 0x0A] @ ''there''))]]) \<and>
   parse_messages []
     [PDict [(''text'', PDict [(''text'', PList [PStr ''Hi''])]),
             (''payload'', PDict [(''k'', PInt 1)])]]
     = Inr [PDict [(''type'', PStr ''text''), (''content'', PList [PStr ''Hi''])]] \<and>
   process_messages []
     [\<lparr>msg_text = None, msg_payload = Some [(''k'', PInt 1)], msg_str = ''payload { }''\<rparr>]
     = [PDict [(''type'', PStr ''payload''), (''content'', PDict [(''k'', PInt 1)])]] \<and>
   msg_text \<lparr>msg_text = None, msg_payload = Some [(''k'', PInt 1)],
             msg_str = ''payload { }''\<rparr> = None \<and>
   parse_messages [] [PDict [(''payload'', PInt 7)]]
     = Inr [PDict [(''type'', PStr ''payload''), (''content'', PInt 7)]] \<and>
   py_contains ''text'' (PDict [(''payload'', PInt 7)]) = Inr False \<and>
   isl (parse_messages [] [PDict [(''text'', PStr ''hi''), (''payload'', PInt 1)]]) \<and>
   (\<exists>e. parse_webhook_request example_env
          ''{\"messages\":[{\"text\":\"hi\",\"payload\":1}]}'' =
        Inr (PDict [(''error'', PStr (''Error parsing webhook request: '' @ exn_str e))]))"
proof -
  have p1: "process_messages []
     [\<lparr>msg_text = None, msg_payload = Some [(''k'', PInt 1)], msg_str = ''payload { }''\<rparr>]
     = [PDict [(''type'', PStr ''payload''), (''content'', PDict [(''k'', PInt 1)])]]"
    by simp
  have p2: "parse_messages [] [PDict [(''payload'', PInt 7)]]
     = Inr [PDict [(''type'', PStr ''payload''), (''content'', PInt 7)]]"
    by simp
  from text_branch_first [of
     "\<lparr>query_result = \<lparr>response_messages =
          [\<lparr>msg_text = Some \<lparr>text_lines = [''Hi'', ''there'']\<rparr>,
            msg_payload = Some [(''k'', PInt 1)], msg_str = ''text { }''\<rparr>],
        qr_match = no_intent_match, qr_parameters = None,
        qr_current_page = \<lparr>page_display_name = ''Start''\<rparr>, qr_transcript = ''''\<rparr>\<rparr>"
     "[]"
     "\<lparr>msg_text = Some \<lparr>text_lines = [''Hi'', ''there'']\<rparr>,
       msg_payload = Some [(''k'', PInt 1)], msg_str = ''text { }''\<rparr>"
     "[]"
     "[(''text'', PDict [(''text'', PList [PStr ''Hi''])]), (''payload'', PDict [(''k'', PInt 1)])]"
     "[]" "[]" "PNone"]
  have a: "map_of (process_response
     \<lparr>query_result = \<lparr>response_messages =
          [\<lparr>msg_text = Some \<lparr>text_lines = [''Hi'', ''there'']\<rparr>,
            msg_payload = Some [(''k'', PInt 1)], msg_str = ''text { }''\<rparr>],
        qr_match = no_intent_match, qr_parameters = None,
        qr_current_page = \<lparr>page_display_name = ''Start''\<rparr>, qr_transcript = ''''\<rparr>\<rparr>)
     ''messages''
     = Some (PList [PDict [(''type'', PStr ''text''),
                           (''content'', PStr (''Hi'' @ [CHR 0x0A] @ ''there''))]]) \<and>
   parse_messages []
     [PDict [(''text'', PDict [(''text'', PList [PStr ''Hi''])]),
             (''payload'', PDict [(''k'', PInt 1)])]]
     = Inr [PDict [(''type'', PStr ''text''), (''content'', PList [PStr ''Hi''])]]"
    by simp
  from text_branch_first [of _ _
     "\<lparr>msg_text = None, msg_payload = Some [(''k'', PInt 1)], msg_str = ''payload { }''\<rparr>"
     _ _ _ _ "PDict [(''payload'', PInt 7)]"] p1 p2
  have b: "msg_text \<lparr>msg_text = None, msg_payload = Some [(''k'', PInt 1)],
             msg_str = ''payload { }''\<rparr> = None \<and>
     py_contains ''text'' (PDict [(''payload'', PInt 7)]) = Inr False"
    by simp
  have l: "json_loads example_env ''{\"messages\":[{\"text\":\"hi\",\"payload\":1}]}'' =
      Inr (PDict [(''messages'',
             PList [PDict [(''text'', PStr ''hi''), (''payload'', PInt 1)]])])"
    by (simp add: example_env_def example_json_loads_def)
  from text_branch_first [of _ _ _ _ _ "[]" "[]"
     "PDict [(''text'', PStr ''hi''), (''payload'', PInt 1)]" example_env
     "''{\"messages\":[{\"text\":\"hi\",\"payload\":1}]}''"]
  have c: "isl (parse_messages [] [PDict [(''text'', PStr ''hi''), (''payload'', PInt 1)]]) \<and>
     (\<forall>d prior.
        json_loads example_env ''{\"messages\":[{\"text\":\"hi\",\"payload\":1}]}''
          = Inr (PDict d) \<and>
        get_or d ''messages'' (PList []) = prior \<and>
        py_iter prior = Inr ([] @ [PDict [(''text'', PStr ''hi''), (''payload'', PInt 1)]] @ [])
        \<longrightarrow>
        (\<exists>e. parse_webhook_request example_env
               ''{\"messages\":[{\"text\":\"hi\",\"payload\":1}]}'' =
             Inr (PDict [(''error'',
                    PStr (''Error parsing webhook request: '' @ exn_str e))])))"
    by (simp add: field2_def del: parse_messages.simps)
  then have c1: "isl (parse_messages [] [PDict [(''text'', PStr ''hi''), (''payload'', PInt 1)]])"
    by simp
  from c [THEN conjunct2, rule_format,
      of "[(''messages'', PList [PDict [(''text'', PStr ''hi''), (''payload'', PInt 1)]])]"
        "PList [PDict [(''text'', PStr ''hi''), (''payload'', PInt 1)]]"] l
  have c2: "\<exists>e. parse_webhook_request example_env
          ''{\"messages\":[{\"text\":\"hi\",\"payload\":1}]}'' =
        Inr (PDict [(''error'', PStr (''Error parsing webhook request: '' @ exn_str e))])"
    by (simp add: get_or_def)
  from a b p1 p2 c1 c2 show ?thesis by simp
qed

text \<open>
  Claim C5, as stated, fails: \<^verbatim>\<open>[]\<close> is valid JSON, and the parser answers it with an
  error result, not with the extracted fields.
\<close>

theorem parse_webhook_request_json_list_is_error:
  "json_loads example_env ''[]'' = Inr (PList []) \<and>
   parse_webhook_request example_env ''[]'' =
     Inr (PDict [(''error'', PStr (''Error parsing webhook request: '' @ quoted ''list''
                    @ '' object has no attribute '' @ quoted ''get''))])"
  by (simp add: parse_webhook_request_def example_env_def example_json_loads_def
      parse_request_data_def except_Exception_def)

text \<open>
  Claim C5 (amended). The parser returns a result for every input and never raises. When
  \<^verbatim>\<open>json.loads\<close> raises on the input, the result is an object with the single field
  \<^verbatim>\<open>error\<close>, holding the exception's message after a fixed prefix. When
  \<^verbatim>\<open>json.loads\<close> returns an object whose \<^verbatim>\<open>sessionInfo\<close>, \<^verbatim>\<open>intentInfo\<close>
  and \<^verbatim>\<open>pageInfo\<close> are objects or absent and whose \<^verbatim>\<open>messages\<close> is absent or a list of
  well-shaped message objects, the result holds the session id, the intent name, the
  parameters, the current page (each with its default), the tagged messages, and the
  whole decoded object under \<^verbatim>\<open>raw_request\<close>.
\<close>

theorem parse_webhook_request_results:
  "(\<exists>r. parse_webhook_request env s = Inr r) \<and>
   (\<forall>e. json_loads env s = Inl e \<longrightarrow>
      parse_webhook_request env s =
        Inr (PDict [(''error'', PStr (''Error parsing webhook request: '' @ exn_str e))])) \<and>
   (\<forall>d sess intent page ms.
      json_loads env s = Inr (PDict d) \<and>
      get_or d ''sessionInfo'' (PDict []) = PDict sess \<and>
      get_or d ''intentInfo'' (PDict []) = PDict intent \<and>
      get_or d ''pageInfo'' (PDict []) = PDict page \<and>
      get_or d ''messages'' (PList []) = PList ms \<and>
      list_all well_shaped_message ms \<longrightarrow>
      parse_webhook_request env s =
        Inr (PDict [(''session_id'', get_or sess ''session'' (PStr [])),
                    (''intent_name'', get_or intent ''displayName'' (PStr [])),
                    (''parameters'', get_or sess ''parameters'' (PDict [])),
                    (''current_page'', get_or page ''displayName'' (PStr [])),
                    (''messages'', PList (concat (map prior_message ms))),
                    (''raw_request'', PDict d)]))"
proof (intro conjI allI impI)
  show "\<exists>r. parse_webhook_request env s = Inr r"
    by (simp add: parse_webhook_request_def except_Exception_def split: sum.splits)
next
  fix e assume "json_loads env s = Inl e"
  then show "parse_webhook_request env s =
        Inr (PDict [(''error'', PStr (''Error parsing webhook request: '' @ exn_str e))])"
    by (simp add: parse_webhook_request_def except_Exception_def)
next
  fix d sess intent page ms
  assume a: "json_loads env s = Inr (PDict d) \<and>
      get_or d ''sessionInfo'' (PDict []) = PDict sess \<and>
      get_or d ''intentInfo'' (PDict []) = PDict intent \<and>
      get_or d ''pageInfo'' (PDict []) = PDict page \<and>
      get_or d ''messages'' (PList []) = PList ms \<and>
      list_all well_shaped_message ms"
  then have "parse_request_data (PDict d) =
     Inr (PDict [(''session_id'', get_or sess ''session'' (PStr [])),
                 (''intent_name'', get_or intent ''displayName'' (PStr [])),
                 (''parameters'', get_or sess ''parameters'' (PDict [])),
                 (''current_page'', get_or page ''displayName'' (PStr [])),
                 (''messages'', PList (concat (map prior_message ms))),
                 (''raw_request'', PDict d)])"
    by (intro parse_request_data_well_shaped) simp_all
  with a show "parse_webhook_request env s =
        Inr (PDict [(''session_id'', get_or sess ''session'' (PStr [])),
                    (''intent_name'', get_or intent ''displayName'' (PStr [])),
                    (''parameters'', get_or sess ''parameters'' (PDict [])),
                    (''current_page'', get_or page ''displayName'' (PStr [])),
                    (''messages'', PList (concat (map prior_message ms))),
                    (''raw_request'', PDict d)])"
    by (simp add: parse_webhook_request_def except_Exception_def)
qed

theorem parse_webhook_request_results_witness:
  "parse_webhook_request example_env ''not json'' =
     Inr (PDict [(''error'',
       PStr ''Error parsing webhook request: Expecting value: line 1 column 1 (char 0)'')]) \<and>
   parse_webhook_request example_env
       ''{\"sessionInfo\":{\"session\":\"s1\",\"parameters\":{\"a\":1}}}'' =
     Inr (PDict [(''session_id'', PStr ''s1''),
                 (''intent_name'', PStr []),
                 (''parameters'', PDict [(''a'', PInt 1)]),
                 (''current_page'', PStr []),
                 (''messages'', PList []),
                 (''raw_request'', PDict [(''sessionInfo'',
                     PDict [(''session'', PStr ''s1''),
                            (''parameters'', PDict [(''a'', PInt 1)])])])])"
proof -
  have l1: "json_loads example_env ''not json'' =
      Inl (PyExn ''JSONDecodeError'' ''Expecting value: line 1 column 1 (char 0)'')"
    by (simp add: example_env_def example_json_loads_def)
  have l2: "json_loads example_env
        ''{\"sessionInfo\":{\"session\":\"s1\",\"parameters\":{\"a\":1}}}'' =
      Inr (PDict [(''sessionInfo'',
               PDict [(''session'', PStr ''s1''), (''parameters'', PDict [(''a'', PInt 1)])])])"
    by (simp add: example_env_def example_json_loads_def)
  from parse_webhook_request_results [of example_env "''not json''"] l1
  have a: "parse_webhook_request example_env ''not json'' =
     Inr (PDict [(''error'',
       PStr ''Error parsing webhook request: Expecting value: line 1 column 1 (char 0)'')])"
    by simp
  from parse_webhook_request_results
    [of example_env "''{\"sessionInfo\":{\"session\":\"s1\",\"parameters\":{\"a\":1}}}''"]
  have "\<forall>d sess intent page ms.
      json_loads example_env
        ''{\"sessionInfo\":{\"session\":\"s1\",\"parameters\":{\"a\":1}}}'' = Inr (PDict d) \<and>
      get_or d ''sessionInfo'' (PDict []) = PDict sess \<and>
      get_or d ''intentInfo'' (PDict []) = PDict intent \<and>
      get_or d ''pageInfo'' (PDict []) = PDict page \<and>
      get_or d ''messages'' (PList []) = PList ms \<and>
      list_all well_shaped_message ms \<longrightarrow>
      parse_webhook_request example_env
        ''{\"sessionInfo\":{\"session\":\"s1\",\"parameters\":{\"a\":1}}}'' =
        Inr (PDict [(''session_id'', get_or sess ''session'' (PStr [])),
                    (''intent_name'', get_or intent ''displayName'' (PStr [])),
                    (''parameters'', get_or sess ''parameters'' (PDict [])),
                    (''current_page'', get_or page ''displayName'' (PStr [])),
                    (''messages'', PList (concat (map prior_message ms))),
                    (''raw_request'', PDict d)])"
    by blast
  from this [rule_format, of "[(''sessionInfo'',
               PDict [(''session'', PStr ''s1''), (''parameters'', PDict [(''a'', PInt 1)])])]"
      "[(''session'', PStr ''s1''), (''parameters'', PDict [(''a'', PInt 1)])]" "[]" "[]" "[]"] l2
  have b: "parse_webhook_request example_env
       ''{\"sessionInfo\":{\"session\":\"s1\",\"parameters\":{\"a\":1}}}'' =
     Inr (PDict [(''session_id'', PStr ''s1''),
                 (''intent_name'', PStr []),
                 (''parameters'', PDict [(''a'', PInt 1)]),
                 (''current_page'', PStr []),
                 (''messages'', PList []),
                 (''raw_request'', PDict [(''sessionInfo'',
                     PDict [(''session'', PStr ''s1''),
                            (''parameters'', PDict [(''a'', PInt 1)])])])])"
    by (simp add: get_or_def)
  from a b show ?thesis by simp
qed


section \<open>The uninitialized client\<close>

text \<open>
  Claim C6. The module starts with no client. While there is none, each of the four
  detection and matching tools returns, whatever its arguments and its environment, the
  object whose single field \<^verbatim>\<open>error\<close> says that the client is not initialized: no
  exception, no remote call, no default result. A call of \<^verbatim>\<open>initialize_dialogflow\<close> in
  that state leaves the module without a client exactly when the client's constructor
  raised.
\<close>

theorem tools_uninitialized_error:
  "DIALOGFLOW_CLIENT initial_globals = None \<and>
   (DIALOGFLOW_CLIENT g = None \<longrightarrow>
      detect_intent env g txt session_id language_code = Inr not_initialized \<and>
      detect_intent_from_audio env g audio_file_path session_id sample_rate_hertz
        audio_encoding language_code = Inr not_initialized \<and>
      detect_intent_from_base64 env g audio_base64 session_id sample_rate_hertz
        audio_encoding language_code = Inr not_initialized \<and>
      match_intent env g txt session_id language_code = Inr not_initialized \<and>
      ((DIALOGFLOW_CLIENT (snd (initialize_dialogflow env g pid loc aid credentials_path))
          = None)
         = (\<exists>e. DialogflowCXClient_init env pid loc aid credentials_path = Inl e))) \<and>
   field not_initialized ''error'' =
     Some (PStr ''Dialogflow CX client not initialized. Call initialize_dialogflow first.'')"
  by (auto simp add: initial_globals_def detect_intent_def detect_intent_from_audio_def
      detect_intent_from_base64_def match_intent_def initialize_dialogflow_def
      not_initialized_def split: sum.splits)

theorem tools_uninitialized_error_witness:
  "detect_intent example_env initial_globals ''hello'' None ''en-US'' = Inr not_initialized \<and>
   match_intent example_env
     (snd (initialize_dialogflow example_env initial_globals ''p'' ''us-central1'' ''a'' None))
     ''hello'' (Some ''s1'') ''en-US'' = Inr not_initialized"
proof -
  have i: "DIALOGFLOW_CLIENT initial_globals = None"
    by (simp add: initial_globals_def)
  have f: "DialogflowCXClient_init example_env ''p'' ''us-central1'' ''a'' None =
      Inl (PyExn ''DefaultCredentialsError'' ''no credentials'')"
    by (simp add: DialogflowCXClient_init_def example_env_def)
  from tools_uninitialized_error
    [of initial_globals example_env "''hello''" None "''en-US''" _ _ _ _
      "''p''" "''us-central1''" "''a''" None] i f
  have a: "detect_intent example_env initial_globals ''hello'' None ''en-US'' =
      Inr not_initialized"
    and s: "DIALOGFLOW_CLIENT
      (snd (initialize_dialogflow example_env initial_globals ''p'' ''us-central1'' ''a'' None))
        = None"
    by simp_all
  from tools_uninitialized_error
    [of "snd (initialize_dialogflow example_env initial_globals ''p'' ''us-central1'' ''a'' None)"
      example_env "''hello''" "Some ''s1''" "''en-US''"] s
  have b: "match_intent example_env
     (snd (initialize_dialogflow example_env initial_globals ''p'' ''us-central1'' ''a'' None))
     ''hello'' (Some ''s1'') ''en-US'' = Inr not_initialized"
    by simp
  from a b show ?thesis by simp
qed

end
